theory Spec2Isabelle
  imports
    Main
    "HOL-Library.Word"
    "HOL-Library.AList"
    "HOL-Library.Sublist"
    "HOL-Library.List_Lexorder"
    "HOL-Library.Char_ord"
begin

unbundle bit_operations_syntax

section \<open>The file system the migration tool works on\<close>

text \<open>
  A path is the list of the components of a cleaned path name, so \<open>filepath.Join\<close> is
  concatenation. The file system is the finite table of the paths that exist, each with
  its node: a regular file (permission bits, content) or a directory (permission bits).
  The empty path names nothing (\<open>os.Lstat("")\<close> fails); the entries with one component
  are the children of the directory every path is relative to.
\<close>

type_synonym path = "string list"
type_synonym mode = "32 word"
type_synonym bytes = "8 word list"

datatype node = File mode bytes | Dir mode

type_synonym fs = "(path \<times> node) list"

datatype errno = ENOENT | ENOTDIR | EISDIR | ENOTEMPTY | EINVAL | EIO

text \<open>
  The calls of the Go standard library the tool makes. The environment may refuse any of
  them (permissions, a full or failing disk): \<open>faulty\<close> says which calls it refuses, and
  a refused call returns \<open>EIO\<close> and changes nothing. Every other failure is decided by the
  table. \<open>umask\<close> is the process's file mode creation mask.
\<close>

datatype oscall =
    CStat path | CLstat path | CReadDir path | CMkdirAll path | COpen path
  | COpenFile path | CCopy path | CRemoveAll path | CRename path path

record os =
  umask :: mode
  faulty :: "oscall \<Rightarrow> bool"

text \<open>The directories above a path, outermost first: its proper, non-empty prefixes.\<close>

definition ancestors :: "path \<Rightarrow> path list" where
  "ancestors p = tl (prefixes (butlast p))"

fun resolve_dirs :: "fs \<Rightarrow> path list \<Rightarrow> errno option" where
  "resolve_dirs t [] = None"
| "resolve_dirs t (q # qs) =
     (case map_of t q of
        None \<Rightarrow> Some ENOENT
      | Some (File _ _) \<Rightarrow> Some ENOTDIR
      | Some (Dir _) \<Rightarrow> resolve_dirs t qs)"

definition lookup :: "fs \<Rightarrow> path \<Rightarrow> errno + node" where
  "lookup t p =
     (if p = [] then Inl ENOENT
      else case resolve_dirs t (ancestors p) of
        Some e \<Rightarrow> Inl e
      | None \<Rightarrow> (case map_of t p of None \<Rightarrow> Inl ENOENT | Some n \<Rightarrow> Inr n))"

definition Stat :: "os \<Rightarrow> fs \<Rightarrow> path \<Rightarrow> errno + node" where
  "Stat e t p = (if faulty e (CStat p) then Inl EIO else lookup t p)"

definition Lstat :: "os \<Rightarrow> fs \<Rightarrow> path \<Rightarrow> errno + node" where
  "Lstat e t p = (if faulty e (CLstat p) then Inl EIO else lookup t p)"

text \<open>\<open>os.IsNotExist\<close>: true of the error for a missing file only, and false of \<open>nil\<close>.\<close>

fun IsNotExist :: "errno + node \<Rightarrow> bool" where
  "IsNotExist (Inl ENOENT) = True"
| "IsNotExist _ = False"

text \<open>
  \<open>os.MkdirAll(path, perm)\<close>: a directory that exists is left as it is, a file in the way
  is \<open>ENOTDIR\<close>, and every missing directory on the way is created with \<open>perm\<close> less the
  umask.
\<close>

fun mkdirs :: "mode \<Rightarrow> path list \<Rightarrow> fs \<Rightarrow> errno + fs" where
  "mkdirs m [] t = Inr t"
| "mkdirs m (q # qs) t =
     (case map_of t q of
        Some (Dir _) \<Rightarrow> mkdirs m qs t
      | Some (File _ _) \<Rightarrow> Inl ENOTDIR
      | None \<Rightarrow> mkdirs m qs (AList.update q (Dir m) t))"

definition MkdirAll :: "os \<Rightarrow> path \<Rightarrow> mode \<Rightarrow> fs \<Rightarrow> errno option \<times> fs" where
  "MkdirAll e p perm t =
     (if faulty e (CMkdirAll p) then (Some EIO, t)
      else case mkdirs (perm AND NOT (umask e)) (tl (prefixes p)) t of
        Inl err \<Rightarrow> (Some err, t)
      | Inr t' \<Rightarrow> (None, t'))"

text \<open>\<open>os.Open(path)\<close>: the handle is the node found; a directory opens too.\<close>

definition Open :: "os \<Rightarrow> fs \<Rightarrow> path \<Rightarrow> errno + node" where
  "Open e t p = (if faulty e (COpen p) then Inl EIO else lookup t p)"

text \<open>
  \<open>os.OpenFile(path, O_CREATE|O_WRONLY, perm)\<close>: an existing file is opened as it is (there
  is no \<open>O_TRUNC\<close>), a missing one is created empty with \<open>perm\<close> less the umask.
\<close>

definition OpenFile :: "os \<Rightarrow> path \<Rightarrow> mode \<Rightarrow> fs \<Rightarrow> errno + fs" where
  "OpenFile e p perm t =
     (if faulty e (COpenFile p) then Inl EIO
      else if p = [] then Inl ENOENT
      else case resolve_dirs t (ancestors p) of
        Some err \<Rightarrow> Inl err
      | None \<Rightarrow>
          (case map_of t p of
             Some (Dir _) \<Rightarrow> Inl EISDIR
           | Some (File _ _) \<Rightarrow> Inr t
           | None \<Rightarrow> Inr (AList.update p (File (perm AND NOT (umask e)) []) t)))"

text \<open>
  \<open>io.Copy(out, in)\<close> on the handles just opened: the content of \<open>in\<close> is written from
  the start of \<open>out\<close>; what \<open>out\<close> held beyond that length stays. Reading a directory
  handle fails.
\<close>

definition Copy :: "os \<Rightarrow> path \<Rightarrow> node \<Rightarrow> fs \<Rightarrow> errno option \<times> fs" where
  "Copy e out inp t =
     (if faulty e (CCopy out) then (Some EIO, t)
      else case inp of
        Dir _ \<Rightarrow> (Some EISDIR, t)
      | File _ c \<Rightarrow>
          (case map_of t out of
             Some (File m old) \<Rightarrow> (None, AList.update out (File m (c @ drop (length c) old)) t)
           | _ \<Rightarrow> (Some EIO, t)))"

text \<open>\<open>os.RemoveAll(path)\<close>: the path and everything below it go; a missing path is no error.\<close>

definition RemoveAll :: "os \<Rightarrow> path \<Rightarrow> fs \<Rightarrow> errno option \<times> fs" where
  "RemoveAll e p t =
     (if faulty e (CRemoveAll p) then (Some EIO, t)
      else if p = [] then (None, t)
      else (None, filter (\<lambda>(q, n). \<not> prefix p q) t))"

text \<open>\<open>os.Rename(old, new)\<close>, as \<open>rename(2)\<close> does it.\<close>

definition has_children :: "fs \<Rightarrow> path \<Rightarrow> bool" where
  "has_children t p = (\<exists>q \<in> set (map fst t). strict_prefix p q)"

definition rekey :: "path \<Rightarrow> path \<Rightarrow> path \<times> node \<Rightarrow> path \<times> node" where
  "rekey old new = (\<lambda>(q, n). if prefix old q then (new @ drop (length old) q, n) else (q, n))"

definition Rename :: "os \<Rightarrow> path \<Rightarrow> path \<Rightarrow> fs \<Rightarrow> errno option \<times> fs" where
  "Rename e old new t =
     (if faulty e (CRename old new) then (Some EIO, t)
      else case lookup t old of
        Inl err \<Rightarrow> (Some err, t)
      | Inr n \<Rightarrow>
          if new = [] then (Some ENOENT, t)
          else if old = new then (None, t)
          else if prefix old new then (Some EINVAL, t)
          else (case resolve_dirs t (ancestors new) of
             Some err \<Rightarrow> (Some err, t)
           | None \<Rightarrow>
               (case (n, map_of t new) of
                  (Dir _, Some (File _ _)) \<Rightarrow> (Some ENOTDIR, t)
                | (File _ _, Some (Dir _)) \<Rightarrow> (Some EISDIR, t)
                | _ \<Rightarrow>
                    if has_children t new then (Some ENOTEMPTY, t)
                    else (None, map (rekey old new) (filter (\<lambda>(q, n). q \<noteq> new) t)))))"

text \<open>\<open>ioutil.ReadDir(path)\<close>: the names in the directory, sorted.\<close>

definition children :: "fs \<Rightarrow> path \<Rightarrow> string list" where
  "children t p = sort (map last (filter (\<lambda>q. q \<noteq> [] \<and> butlast q = p) (map fst t)))"

definition ReadDir :: "os \<Rightarrow> fs \<Rightarrow> path \<Rightarrow> errno + string list" where
  "ReadDir e t p =
     (if faulty e (CReadDir p) then Inl EIO
      else if p = [] then Inr (children t p)
      else case lookup t p of
        Inl err \<Rightarrow> Inl err
      | Inr (File _ _) \<Rightarrow> Inl ENOTDIR
      | Inr (Dir _) \<Rightarrow> Inr (children t p))"

section \<open>The migration tool\<close>

subsection \<open>Paths and strings\<close>

definition backupExt :: string where
  "backupExt = ''bak''"

definition tsmExt :: string where
  "tsmExt = ''tsm''"

definition maxTSMSz :: "64 word" where
  "maxTSMSz = 1 * 1024 * 1024 * 1024"

text \<open>\<open>strings.Split(s, sep)\<close> for a separator of one character.\<close>

fun split_on :: "char \<Rightarrow> string \<Rightarrow> string list" where
  "split_on c [] = [[]]"
| "split_on c (x # xs) =
     (if x = c then [] # split_on c xs
      else case split_on c xs of
        w # ws \<Rightarrow> (x # w) # ws
      | [] \<Rightarrow> [[x]])"

text \<open>
  The components of a path name: \<open>filepath.Clean\<close> drops empty components and \<open>.\<close>
  (a \<open>..\<close> is kept as a component).
\<close>

definition parse_path :: "string \<Rightarrow> path" where
  "parse_path s = filter (\<lambda>c. c \<noteq> [] \<and> c \<noteq> ''.'') (split_on (CHR ''/'') s)"

definition path_join :: "path \<Rightarrow> string list \<Rightarrow> path" where
  "path_join p elems = p @ concat (map parse_path elems)"

text \<open>The path name followed by a dot and an extension: \<open>src + "." + ext\<close>.\<close>

definition add_ext :: "path \<Rightarrow> string \<Rightarrow> path" where
  "add_ext p ext = (if p = [] then [''.'' @ ext] else butlast p @ [last p @ ''.'' @ ext])"

text \<open>
  \<open>strings.Replace(path, src, dest, 1)\<close> on the paths \<open>filepath.Walk(src, ...)\<close> hands to
  its callback: every one of them starts with \<open>src\<close>, so the first occurrence of \<open>src\<close>
  is that start. A path without it is left as it is.
\<close>

definition replace_prefix :: "path \<Rightarrow> path \<Rightarrow> path \<Rightarrow> path" where
  "replace_prefix p src dest = (if prefix src p then dest @ drop (length src) p else p)"

text \<open>\<open>strings.ToLower\<close> on the letters of ASCII, and \<open>strings.TrimRight(s, "\n")\<close>.\<close>

definition lower_char :: "char \<Rightarrow> char" where
  "lower_char c =
     (if CHR ''A'' \<le> c \<and> c \<le> CHR ''Z'' then char_of (of_char c + (32 :: nat)) else c)"

definition ToLower :: "string \<Rightarrow> string" where
  "ToLower s = map lower_char s"

definition TrimRight :: "string \<Rightarrow> char \<Rightarrow> string" where
  "TrimRight s c = rev (dropWhile (\<lambda>x. x = c) (rev s))"

subsection \<open>Backup\<close>

datatype 'e result = OK | Error 'e | Panic

datatype berror = BackupExists path | CopyError errno

text \<open>
  The callback of \<open>copyDir\<close> on one path and its \<open>FileInfo\<close>. It does not look at the
  error \<open>filepath.Walk\<close> passes.
\<close>

definition copyFile :: "os \<Rightarrow> path \<Rightarrow> path \<Rightarrow> path \<Rightarrow> node \<Rightarrow> fs \<Rightarrow> errno option \<times> fs" where
  "copyFile e dest src p info t =
     (let toPath = replace_prefix p src dest in
      case info of
        Dir m \<Rightarrow> MkdirAll e toPath m t
      | File m _ \<Rightarrow>
          (case Open e t p of
             Inl err \<Rightarrow> (Some err, t)
           | Inr inp \<Rightarrow>
               (case OpenFile e toPath m t of
                  Inl err \<Rightarrow> (Some err, t)
                | Inr t' \<Rightarrow> Copy e toPath inp t')))"

text \<open>
  \<open>filepath.Walk(src, copyFile)\<close> visits \<open>src\<close> and everything below it in lexical order,
  a directory before its content. Below a directory whose listing the environment
  refuses it visits nothing: the callback is told, and returns \<open>nil\<close>. The callback
  writes below \<open>dest\<close> only, which is not below \<open>src\<close>, so the paths to visit are those
  of the table the walk starts on. A path whose \<open>Lstat\<close> fails reaches the callback with
  a \<open>nil\<close> \<open>FileInfo\<close>, and \<open>info.IsDir()\<close> panics.
\<close>

definition walk_paths :: "os \<Rightarrow> fs \<Rightarrow> path \<Rightarrow> path list" where
  "walk_paths e t src =
     sort (filter (\<lambda>p. prefix src p \<and>
                    (\<forall>q \<in> set (prefixes (butlast p)). prefix src q \<longrightarrow> \<not> faulty e (CReadDir q)))
             (map fst t))"

fun walk_steps :: "os \<Rightarrow> path \<Rightarrow> path \<Rightarrow> path list \<Rightarrow> fs \<Rightarrow> errno result \<times> fs" where
  "walk_steps e dest src [] t = (OK, t)"
| "walk_steps e dest src (p # ps) t =
     (case Lstat e t p of
        Inl _ \<Rightarrow> (Panic, t)
      | Inr info \<Rightarrow>
          (case copyFile e dest src p info t of
             (Some err, t') \<Rightarrow> (Error err, t')
           | (None, t') \<Rightarrow> walk_steps e dest src ps t'))"

definition copyDir :: "os \<Rightarrow> path \<Rightarrow> path \<Rightarrow> fs \<Rightarrow> errno result \<times> fs" where
  "copyDir e dest src t =
     (case Lstat e t src of
        Inl _ \<Rightarrow> (Panic, t)
      | Inr _ \<Rightarrow> walk_steps e dest src (walk_paths e t src) t)"

definition backupDatabase :: "os \<Rightarrow> path \<Rightarrow> fs \<Rightarrow> berror result \<times> fs" where
  "backupDatabase e src t =
     (let dest = add_ext src backupExt in
      if \<not> IsNotExist (Stat e t dest) then (Error (BackupExists src), t)
      else case copyDir e dest src t of
        (OK, t') \<Rightarrow> (OK, t')
      | (Error err, t') \<Rightarrow> (Error (CopyError err), t')
      | (Panic, t') \<Rightarrow> (Panic, t'))"

subsection \<open>Shards\<close>

datatype EngineFormat = B1 | BZ1 | TSM1

record ShardInfo =
  Database :: string
  RetentionPolicy :: string
  Path :: string
  Format :: EngineFormat
  Size :: int

text \<open>
  Modelled from the spec: the methods of \<open>tsdb.ShardInfo\<close> and \<open>tsdb.ShardInfos\<close> the tool
  calls are not among the sources. A shard lives at
  \<open><root>/<database>/<retentionPolicy>/<shardID>\<close>; the order of the plan is by database,
  retention policy and path; the filters keep the order; no list of names means every
  database; the databases of a plan are the distinct databases of its shards.
\<close>

definition FullPath :: "ShardInfo \<Rightarrow> path \<Rightarrow> path" where
  "FullPath si dataPath = path_join dataPath [Database si, RetentionPolicy si, Path si]"

definition sort_ShardInfos :: "ShardInfo list \<Rightarrow> ShardInfo list" where
  "sort_ShardInfos shards = sort_key Database (sort_key RetentionPolicy (sort_key Path shards))"

definition FilterFormat :: "ShardInfo list \<Rightarrow> EngineFormat \<Rightarrow> ShardInfo list" where
  "FilterFormat shards fmt = filter (\<lambda>si. Format si \<noteq> fmt) shards"

definition FilterDatabases :: "ShardInfo list \<Rightarrow> string list \<Rightarrow> ShardInfo list" where
  "FilterDatabases shards dbs =
     (if dbs = [] then shards else filter (\<lambda>si. Database si \<in> set dbs) shards)"

definition Databases :: "ShardInfo list \<Rightarrow> string list" where
  "Databases shards = sort (remdups (map Database shards))"

text \<open>
  The code the tool calls and the sources do not hold: listing the shards of a database
  directory (\<open>tsdb.NewDatabase(path).Shards()\<close>), the readers of the two legacy formats
  (\<open>Open\<close>, \<open>Close\<close>) and the converter (\<open>NewConverter(dst, size).Process(reader)\<close>). Each
  is a parameter: on the file system it finds it returns an error message or none, and
  the file system it leaves.
\<close>

record collab =
  Shards :: "fs \<Rightarrow> path \<Rightarrow> string + ShardInfo list"
  reader_Open :: "EngineFormat \<Rightarrow> path \<Rightarrow> fs \<Rightarrow> string option \<times> fs"
  converter_Process :: "path \<Rightarrow> 32 word \<Rightarrow> EngineFormat \<Rightarrow> path \<Rightarrow> fs \<Rightarrow> string option \<times> fs"
  reader_Close :: "EngineFormat \<Rightarrow> path \<Rightarrow> fs \<Rightarrow> string option \<times> fs"

subsection \<open>What a run does, in order\<close>

datatype cerror =
    UnsupportedFormat EngineFormat
  | OpenFailed path string
  | ConversionFailed path string
  | CloseFailed path string
  | DeletionFailed path errno
  | RenameFailed path path errno

datatype message =
    NoDataDirectory
  | MaximumSize
  | AccessFailed path errno
  | Blank
  | Skipping string
  | ShardsFailed string string
  | NothingToDo
  | Plan "ShardInfo list"
  | Proceed
  | ResponseFailed string
  | Aborted
  | Starting
  | BackupFailed string berror
  | BackedUp string
  | ConvertFailed path cerror
  | Converted path
  | Panicked

datatype event =
    Out message
  | ListRoot path
  | ListShards path
  | Backup path
  | Convert ShardInfo
  | ReaderOpen path
  | Process path "32 word"
  | ReaderClose path
  | Remove path
  | Move path path

text \<open>The text of the messages that carry no number and no duration.\<close>

fun render :: "message \<Rightarrow> string" where
  "render NoDataDirectory = ''No data directory specified''"
| "render MaximumSize = ''Maximum TSM file size is 1073741824''"
| "render (Skipping name) = ''Skipping '' @ name @ '' as it looks like a backup.''"
| "render (ShardsFailed name err) = ''failed to access shards for database '' @ name @ '': '' @ err"
| "render NothingToDo = ''Nothing to do.''"
| "render Proceed = ''These shards will be converted. Proceed? y/N: ''"
| "render (ResponseFailed err) = ''failed to read response: '' @ err"
| "render Aborted = ''Conversion aborted.''"
| "render Starting = ''Conversion starting....''"
| "render (BackedUp db) = ''Database '' @ db @ '' backed up.''"
| "render _ = []"

subsection \<open>Converting one shard\<close>

text \<open>\<open>dataPath\<close> and \<open>tsmSz\<close> are the globals \<open>main\<close> sets before it converts.\<close>

definition convertShard ::
  "os \<Rightarrow> collab \<Rightarrow> path \<Rightarrow> 64 word \<Rightarrow> ShardInfo \<Rightarrow> fs \<Rightarrow> cerror option \<times> fs \<times> event list" where
  "convertShard e c dataPath tsmSz si t =
     (let src = FullPath si dataPath; dst = add_ext src tsmExt in
      if Format si \<noteq> BZ1 \<and> Format si \<noteq> B1 then (Some (UnsupportedFormat (Format si)), t, [])
      else case reader_Open c (Format si) src t of
        (Some err, t1) \<Rightarrow> (Some (OpenFailed src err), t1, [ReaderOpen src])
      | (None, t1) \<Rightarrow>
          (case converter_Process c dst (ucast tsmSz) (Format si) src t1 of
             (Some err, t2) \<Rightarrow>
               (Some (ConversionFailed src err), t2, [ReaderOpen src, Process dst (ucast tsmSz)])
           | (None, t2) \<Rightarrow>
               (case reader_Close c (Format si) src t2 of
                  (Some err, t3) \<Rightarrow>
                    (Some (CloseFailed src err), t3,
                     [ReaderOpen src, Process dst (ucast tsmSz), ReaderClose src])
                | (None, t3) \<Rightarrow>
                    (case RemoveAll e (FullPath si dataPath) t3 of
                       (Some err, t4) \<Rightarrow>
                         (Some (DeletionFailed src err), t4,
                          [ReaderOpen src, Process dst (ucast tsmSz), ReaderClose src, Remove src])
                     | (None, t4) \<Rightarrow>
                         (case Rename e dst src t4 of
                            (Some err, t5) \<Rightarrow>
                              (Some (RenameFailed dst src err), t5,
                               [ReaderOpen src, Process dst (ucast tsmSz), ReaderClose src,
                                Remove src, Move dst src])
                          | (None, t5) \<Rightarrow>
                              (None, t5,
                               [ReaderOpen src, Process dst (ucast tsmSz), ReaderClose src,
                                Remove src, Move dst src]))))))"

subsection \<open>The run\<close>

record flags =
  args :: "string list"
  ds :: string
  tsmSz :: "64 word"
  parallel :: bool

text \<open>The databases asked for (lines 77 to 80); none means all.\<close>

definition requested :: "string \<Rightarrow> string list" where
  "requested s = (let r = split_on (CHR '','') s in if length r = 1 \<and> hd r = [] then [] else r)"

text \<open>The loop over the entries of the data directory. \<open>False\<close>: the run ends, with status 1.\<close>

fun discover :: "collab \<Rightarrow> fs \<Rightarrow> path \<Rightarrow> string list \<Rightarrow> bool \<times> ShardInfo list \<times> event list" where
  "discover c t dataPath [] = (True, [], [])"
| "discover c t dataPath (name # rest) =
     (if suffix backupExt name then
        (case discover c t dataPath rest of
           (ok, shs, evs) \<Rightarrow> (ok, shs, Out (Skipping name) # evs))
      else case Shards c t (path_join dataPath [name]) of
        Inl err \<Rightarrow> (False, [], [ListShards (path_join dataPath [name]), Out (ShardsFailed name err)])
      | Inr shs \<Rightarrow>
          (case discover c t dataPath rest of
             (ok, shs', evs) \<Rightarrow> (ok, shs @ shs', ListShards (path_join dataPath [name]) # evs)))"

text \<open>
  The two loops at the end of \<open>main\<close>. \<open>Some n\<close>: the process ends there, with status
  \<open>n\<close> (2 when it panics, which the Go runtime reports on the standard error).
\<close>

fun backup_each :: "os \<Rightarrow> path \<Rightarrow> string list \<Rightarrow> fs \<Rightarrow> nat option \<times> fs \<times> event list" where
  "backup_each e dataPath [] t = (None, t, [])"
| "backup_each e dataPath (db # dbs) t =
     (case backupDatabase e (path_join dataPath [db]) t of
        (OK, t') \<Rightarrow>
          (case backup_each e dataPath dbs t' of
             (r, t'', evs) \<Rightarrow> (r, t'', Backup (path_join dataPath [db]) # Out (BackedUp db) # evs))
      | (Error err, t') \<Rightarrow>
          (Some 1, t', [Backup (path_join dataPath [db]), Out (BackupFailed db err)])
      | (Panic, t') \<Rightarrow> (Some 2, t', [Backup (path_join dataPath [db]), Out Panicked]))"

fun convert_each ::
  "os \<Rightarrow> collab \<Rightarrow> path \<Rightarrow> 64 word \<Rightarrow> ShardInfo list \<Rightarrow> fs \<Rightarrow> nat option \<times> fs \<times> event list" where
  "convert_each e c dataPath sz [] t = (None, t, [])"
| "convert_each e c dataPath sz (si # sis) t =
     (case convertShard e c dataPath sz si t of
        (Some err, t', evs) \<Rightarrow>
          (Some 1, t', Convert si # evs @ [Out (ConvertFailed (FullPath si dataPath) err)])
      | (None, t', evs) \<Rightarrow>
          (case convert_each e c dataPath sz sis t' of
             (r, t'', evs') \<Rightarrow>
               (r, t'', Convert si # evs @ Out (Converted (FullPath si dataPath)) # evs')))"

text \<open>
  \<open>main\<close> up to the plan (lines 63 to 113): either the process ends, with a status and
  what it did, or there is a data path and a plan that is not empty.
\<close>

definition plan ::
  "os \<Rightarrow> collab \<Rightarrow> flags \<Rightarrow> fs \<Rightarrow> nat \<times> event list + path \<times> ShardInfo list \<times> event list" where
  "plan e c fl t =
     (if length (args fl) < 1 then Inl (1, [Out NoDataDirectory])
      else let dataPath = parse_path (hd (args fl)) in
      if tsmSz fl > maxTSMSz then Inl (1, [Out MaximumSize])
      else let reqDs = requested (ds fl) in
      case ReadDir e t dataPath of
        Inl err \<Rightarrow> Inl (1, [ListRoot dataPath, Out (AccessFailed dataPath err)])
      | Inr dbs \<Rightarrow>
          (case discover c t dataPath dbs of
             (False, _, evs) \<Rightarrow> Inl (1, [ListRoot dataPath, Out Blank] @ evs)
           | (True, found, evs) \<Rightarrow>
               (let shards = FilterDatabases (FilterFormat (sort_ShardInfos found) TSM1) reqDs in
                if length shards = 0
                then Inl (0, [ListRoot dataPath, Out Blank] @ evs @ [Out NothingToDo])
                else Inr (dataPath, shards, [ListRoot dataPath, Out Blank] @ evs))))"

text \<open>The end of \<open>main\<close> (lines 140 to 160): every backup, then every conversion.\<close>

definition backup_and_convert ::
  "os \<Rightarrow> collab \<Rightarrow> path \<Rightarrow> 64 word \<Rightarrow> ShardInfo list \<Rightarrow> fs \<Rightarrow> nat \<times> fs \<times> event list" where
  "backup_and_convert e c dataPath sz shards t =
     (case backup_each e dataPath (Databases shards) t of
        (Some n, t1, bevs) \<Rightarrow> (n, t1, bevs)
      | (None, t1, bevs) \<Rightarrow>
          (case convert_each e c dataPath sz shards t1 of
             (Some n, t2, cevs) \<Rightarrow> (n, t2, bevs @ cevs)
           | (None, t2, cevs) \<Rightarrow> (0, t2, bevs @ cevs)))"

text \<open>
  \<open>main\<close>. \<open>yn\<close> is what reading a line of the standard input gives: an error or the line.
  The result is the exit status, the file system left and what the run did, in order.
\<close>

definition main_tsm ::
  "os \<Rightarrow> collab \<Rightarrow> flags \<Rightarrow> string + string \<Rightarrow> fs \<Rightarrow> nat \<times> fs \<times> event list" where
  "main_tsm e c fl yn t =
     (case plan e c fl t of
        Inl (n, evs) \<Rightarrow> (n, t, evs)
      | Inr (dataPath, shards, evs) \<Rightarrow>
          (let evs2 = evs @ [Out Blank, Out (Plan shards), Out Proceed] in
           case yn of
             Inl err \<Rightarrow> (1, t, evs2 @ [Out (ResponseFailed err)])
           | Inr line \<Rightarrow>
               if TrimRight (ToLower line) (CHR 0x0A) \<noteq> ''y''
               then (1, t, evs2 @ [Out Aborted])
               else (case backup_and_convert e c dataPath (tsmSz fl) shards t of
                       (n, t', evs3) \<Rightarrow> (n, t', evs2 @ Out Starting # evs3))))"

subsection \<open>Notions the properties are stated with\<close>

text \<open>
  A name a directory entry can have, and a table that is a tree: no path twice, every
  path made of such names, every path but the outermost inside a directory of the table.
\<close>

definition component :: "string \<Rightarrow> bool" where
  "component n = (n \<noteq> [] \<and> n \<noteq> ''.'' \<and> CHR ''/'' \<notin> set n)"

definition wf_fs :: "fs \<Rightarrow> bool" where
  "wf_fs t =
     (distinct (map fst t) \<and>
      (\<forall>p \<in> set (map fst t).
         p \<noteq> [] \<and> (\<forall>n \<in> set p. component n) \<and>
         (butlast p \<noteq> [] \<longrightarrow> (\<exists>m. map_of t (butlast p) = Some (Dir m)))))"

text \<open>Everything at or below a path is in the second table as it is in the first.\<close>

definition same_below :: "path \<Rightarrow> fs \<Rightarrow> fs \<Rightarrow> bool" where
  "same_below src t t' =
     (\<forall>p \<in> set (map fst t @ map fst t'). prefix src p \<longrightarrow> map_of t' p = map_of t p)"

text \<open>The errors \<open>convertShard\<close> returns before it comes to delete the shard.\<close>

fun before_delete :: "cerror \<Rightarrow> bool" where
  "before_delete (DeletionFailed _ _) = False"
| "before_delete (RenameFailed _ _ _) = False"
| "before_delete _ = True"

text \<open>What belongs to a backup and what to a conversion, among the things a run does.\<close>

fun is_backup :: "event \<Rightarrow> bool" where
  "is_backup (Backup _) = True"
| "is_backup (Out (BackedUp _)) = True"
| "is_backup (Out (BackupFailed _ _)) = True"
| "is_backup _ = False"

fun is_conversion :: "event \<Rightarrow> bool" where
  "is_conversion (Convert _) = True"
| "is_conversion (ReaderOpen _) = True"
| "is_conversion (Process _ _) = True"
| "is_conversion (ReaderClose _) = True"
| "is_conversion (Remove _) = True"
| "is_conversion (Move _ _) = True"
| "is_conversion (Out (ConvertFailed _ _)) = True"
| "is_conversion (Out (Converted _)) = True"
| "is_conversion _ = False"

text \<open>What a run does before it backs anything up: it lists and it prints.\<close>

fun is_planning :: "event \<Rightarrow> bool" where
  "is_planning (ListRoot _) = True"
| "is_planning (ListShards _) = True"
| "is_planning (Out m) = (\<not> is_backup (Out m) \<and> \<not> is_conversion (Out m) \<and> m \<noteq> Panicked)"
| "is_planning _ = False"

subsection \<open>A run to try the tool on\<close>

definition demo_os :: os where
  "demo_os = \<lparr>umask = 18, faulty = (\<lambda>_. False)\<rparr>"

definition demo_fs :: fs where
  "demo_fs =
     [([''data''], Dir 493),
      ([''data'', ''db''], Dir 493),
      ([''data'', ''db'', ''rp''], Dir 448),
      ([''data'', ''db'', ''rp'', ''1''], File 420 [1, 2, 3]),
      ([''data'', ''mydb.bak''], Dir 493)]"

definition demo_shard :: ShardInfo where
  "demo_shard = \<lparr>Database = ''db'', RetentionPolicy = ''rp'', Path = ''1'', Format = B1, Size = 3\<rparr>"

definition demo_collab :: collab where
  "demo_collab =
     \<lparr>Shards = (\<lambda>t p. if p = [''data'', ''db''] then Inr [demo_shard] else Inl ''not a database''),
      reader_Open = (\<lambda>f p t. (None, t)),
      converter_Process = (\<lambda>dst sz f src t. (None, AList.update dst (File 420 [7]) t)),
      reader_Close = (\<lambda>f p t. (None, t))\<rparr>"

definition demo_flags :: flags where
  "demo_flags = \<lparr>args = [''data''], ds = [], tsmSz = maxTSMSz, parallel = False\<rparr>"

definition demo_yes :: "string + string" where
  "demo_yes = Inr [CHR ''Y'', CHR 0x0A]"

text \<open>The file system the run above leaves, a converter that fails, and other flags.\<close>

definition demo_fs2 :: fs where
  "demo_fs2 =
     [([''data''], Dir 493),
      ([''data'', ''db''], Dir 493),
      ([''data'', ''db'', ''rp''], Dir 448),
      ([''data'', ''mydb.bak''], Dir 493),
      ([''data'', ''db.bak''], Dir 493),
      ([''data'', ''db.bak'', ''rp''], Dir 448),
      ([''data'', ''db.bak'', ''rp'', ''1''], File 420 [1, 2, 3]),
      ([''data'', ''db'', ''rp'', ''1''], File 420 [7])]"

definition demo_failing :: collab where
  "demo_failing =
     demo_collab\<lparr>converter_Process :=
       (\<lambda>dst sz f src t. (Some ''disk full'', AList.update dst (File 420 [7]) t))\<rparr>"

definition demo_other :: flags where
  "demo_other = demo_flags\<lparr>ds := ''other,more''\<rparr>"

section \<open>Properties of the migration tool\<close>

subsection \<open>What each part of a run does\<close>

lemma ucast_tsmSz: "(x::64 word) \<le> maxTSMSz \<Longrightarrow> unat (ucast x :: 32 word) = unat x"
  by (simp add: maxTSMSz_def unsigned_ucast_eq word_le_nat_alt take_bit_nat_eq_self)

lemma convertShard_events:
  "convertShard e c dp sz si t = (r, t', evs) \<Longrightarrow>
   set evs \<subseteq> {ReaderOpen (FullPath si dp), Process (add_ext (FullPath si dp) tsmExt) (ucast sz),
              ReaderClose (FullPath si dp), Remove (FullPath si dp),
              Move (add_ext (FullPath si dp) tsmExt) (FullPath si dp)}"
  by (auto simp: convertShard_def Let_def split: if_splits prod.splits option.splits)

lemma convert_each_Process:
  "convert_each e c dp sz sis t = (r, t', evs) \<Longrightarrow> Process dst s \<in> set evs \<Longrightarrow> s = ucast sz"
proof (induction sis arbitrary: t r t' evs)
  case Nil
  then show ?case by simp
next
  case (Cons si sis)
  obtain r1 t1 evs1 where cs: "convertShard e c dp sz si t = (r1, t1, evs1)"
    by (cases "convertShard e c dp sz si t") auto
  note sub = convertShard_events [OF cs]
  show ?case
  proof (cases r1)
    case None
    obtain r2 t2 evs2 where ce: "convert_each e c dp sz sis t1 = (r2, t2, evs2)"
      by (cases "convert_each e c dp sz sis t1") auto
    from Cons.prems cs None ce have "Process dst s \<in> set evs1 \<or> Process dst s \<in> set evs2"
      by auto
    then show ?thesis using sub Cons.IH [OF ce] by auto
  next
    case (Some err)
    with Cons.prems cs have "Process dst s \<in> set evs1" by auto
    then show ?thesis using sub by auto
  qed
qed

lemma backup_each_Cons [consumes 1, case_names ok failed panic]:
  assumes "backup_each e dp (db # dbs) t = (r, t', evs)"
  obtains t1 evs1 where "backupDatabase e (path_join dp [db]) t = (OK, t1)"
      "backup_each e dp dbs t1 = (r, t', evs1)"
      "evs = Backup (path_join dp [db]) # Out (BackedUp db) # evs1"
  | err where "backupDatabase e (path_join dp [db]) t = (Error err, t')" "r = Some 1"
      "evs = [Backup (path_join dp [db]), Out (BackupFailed db err)]"
  | "backupDatabase e (path_join dp [db]) t = (Panic, t')" "r = Some 2"
      "evs = [Backup (path_join dp [db]), Out Panicked]"
  using assms by (auto split: prod.splits result.splits)

lemma backup_each_events:
  "backup_each e dp dbs t = (r, t', evs) \<Longrightarrow> ev \<in> set evs \<Longrightarrow> is_backup ev \<or> ev = Out Panicked"
proof (induction dbs arbitrary: t evs)
  case Nil
  then show ?case by simp
next
  case (Cons db dbs)
  from Cons.prems(1) show ?case
  proof (cases rule: backup_each_Cons)
    case (ok t1 evs1)
    with Cons.prems(2) Cons.IH [OF ok(2)] show ?thesis by auto
  qed (use Cons.prems(2) in auto)
qed

lemma backup_each_done:
  "backup_each e dp dbs t = (None, t', evs) \<Longrightarrow>
     (\<forall>db \<in> set dbs. Out (BackedUp db) \<in> set evs) \<and>
     (\<forall>ev \<in> set evs. (\<exists>p. ev = Backup p) \<or> (\<exists>db. ev = Out (BackedUp db)))"
proof (induction dbs arbitrary: t evs)
  case Nil
  then show ?case by simp
next
  case (Cons db dbs)
  from Cons.prems(1) show ?case
  proof (cases rule: backup_each_Cons)
    case (ok t1 evs1)
    with Cons.IH [OF ok(2)] show ?thesis by auto
  qed simp_all
qed

lemma backup_each_failed:
  "backup_each e dp dbs t = (r, t', evs) \<Longrightarrow>
     ((\<exists>db err. Out (BackupFailed db err) \<in> set evs) \<longrightarrow> r = Some 1) \<and>
     (Out Panicked \<in> set evs \<longrightarrow> r = Some 2)"
proof (induction dbs arbitrary: t evs)
  case Nil
  then show ?case by simp
next
  case (Cons db dbs)
  from Cons.prems(1) show ?case
  proof (cases rule: backup_each_Cons)
    case (ok t1 evs1)
    with Cons.IH [OF ok(2)] show ?thesis by auto
  qed simp_all
qed

lemma convertShard_conversion:
  "convertShard e c dp sz si t = (r, t', evs) \<Longrightarrow> ev \<in> set evs \<Longrightarrow> is_conversion ev"
  by (drule convertShard_events) auto

lemma convert_each_events:
  "convert_each e c dp sz sis t = (r, t', evs) \<Longrightarrow> ev \<in> set evs \<Longrightarrow> is_conversion ev"
proof (induction sis arbitrary: t r t' evs)
  case Nil
  then show ?case by simp
next
  case (Cons si sis)
  obtain r1 t1 evs1 where cs: "convertShard e c dp sz si t = (r1, t1, evs1)"
    by (cases "convertShard e c dp sz si t") auto
  obtain r2 t2 evs2 where ce: "convert_each e c dp sz sis t1 = (r2, t2, evs2)"
    by (cases "convert_each e c dp sz sis t1") auto
  from Cons.prems cs ce have "ev \<in> set evs1 \<or> ev \<in> set evs2 \<or> is_conversion ev"
    by (cases r1) auto
  then show ?case using convertShard_conversion [OF cs] Cons.IH [OF ce] by auto
qed

lemma set_Databases: "set (Databases shards) = Database ` set shards"
  by (simp add: Databases_def)

lemma ordered_append:
  assumes "evs = xs @ ys" "\<forall>ev \<in> set xs. \<not> C ev" "\<forall>ev \<in> set ys. \<not> B ev"
    and "i < length evs" "j < length evs" "B (evs ! i)" "C (evs ! j)"
  shows "i < j"
proof -
  from assms have "i < length xs"
    by (metis nth_append nth_mem add_diff_inverse_nat length_append nat_add_left_cancel_less)
  moreover from assms have "\<not> j < length xs"
    by (metis nth_append nth_mem)
  ultimately show ?thesis by simp
qed

lemma backup_and_convert_split:
  assumes "backup_and_convert e c dp sz shards t = (code, t', evs)"
  obtains bevs cevs where "evs = bevs @ cevs"
    "\<forall>ev \<in> set bevs. is_backup ev \<or> ev = Out Panicked"
    "\<forall>ev \<in> set cevs. is_conversion ev"
    "cevs \<noteq> [] \<longrightarrow> (\<forall>si \<in> set shards. Out (BackedUp (Database si)) \<in> set bevs) \<and>
        (\<forall>ev \<in> set bevs. (\<exists>p. ev = Backup p) \<or> (\<exists>db. ev = Out (BackedUp db)))"
    "(\<exists>db err. Out (BackupFailed db err) \<in> set bevs) \<longrightarrow> code = 1 \<and> cevs = []"
    "Out Panicked \<in> set bevs \<longrightarrow> code = 2 \<and> cevs = []"
proof -
  obtain r t1 bevs where b: "backup_each e dp (Databases shards) t = (r, t1, bevs)"
    by (cases "backup_each e dp (Databases shards) t") auto
  show ?thesis
  proof (cases r)
    case (Some n)
    with assms b have "evs = bevs @ []" "code = n" by (auto simp: backup_and_convert_def)
    then show ?thesis using that [of bevs "[]"] backup_each_events [OF b] backup_each_failed [OF b] Some
      by auto
  next
    case None
    obtain r2 t2 cevs where cv: "convert_each e c dp sz shards t1 = (r2, t2, cevs)"
      by (cases "convert_each e c dp sz shards t1") auto
    with assms b None have "evs = bevs @ cevs"
      by (auto simp: backup_and_convert_def split: option.splits)
    moreover from backup_each_done [OF b [unfolded None]]
    have "(\<forall>si \<in> set shards. Out (BackedUp (Database si)) \<in> set bevs)"
      and only: "(\<forall>ev \<in> set bevs. (\<exists>p. ev = Backup p) \<or> (\<exists>db. ev = Out (BackedUp db)))"
      by (auto simp: set_Databases)
    moreover from only have "\<not> (\<exists>db err. Out (BackupFailed db err) \<in> set bevs)" "Out Panicked \<notin> set bevs"
      by auto
    ultimately show ?thesis
      using that [of bevs cevs] backup_each_events [OF b] convert_each_events [OF cv] by blast
  qed
qed

lemma backup_and_convert_Process:
  assumes "backup_and_convert e c dp sz shards t = (n, t', evs)" and "Process dst s \<in> set evs"
  shows "s = ucast sz"
proof -
  obtain r t1 bevs where b: "backup_each e dp (Databases shards) t = (r, t1, bevs)"
    by (cases "backup_each e dp (Databases shards) t") auto
  obtain r2 t2 cevs where cv: "convert_each e c dp sz shards t1 = (r2, t2, cevs)"
    by (cases "convert_each e c dp sz shards t1") auto
  from assms b cv have "Process dst s \<in> set bevs \<or> Process dst s \<in> set cevs"
    by (auto simp: backup_and_convert_def split: option.splits)
  then show ?thesis
    using backup_each_events [OF b, of "Process dst s"] convert_each_Process [OF cv] by auto
qed

lemma discover_events:
  "discover c t dp names = (ok, shs, evs) \<Longrightarrow> ev \<in> set evs \<Longrightarrow>
     (\<exists>n \<in> set names. suffix backupExt n \<and> ev = Out (Skipping n)) \<or>
     (\<exists>n \<in> set names. \<not> suffix backupExt n \<and>
        (ev = ListShards (path_join dp [n]) \<or> (\<exists>err. ev = Out (ShardsFailed n err))))"
  by (induction names arbitrary: ok shs evs) (auto split: prod.splits sum.splits if_splits)

lemma discover_planning:
  "discover c t dp names = (ok, shs, evs) \<Longrightarrow> ev \<in> set evs \<Longrightarrow> is_planning ev"
  by (drule (1) discover_events) auto

lemma discover_skips:
  "discover c t dp names = (True, shs, evs) \<Longrightarrow> n \<in> set names \<Longrightarrow> suffix backupExt n \<Longrightarrow>
     Out (Skipping n) \<in> set evs"
  by (induction names arbitrary: shs evs) (auto split: prod.splits sum.splits if_splits)

lemma discover_sources:
  "discover c t dp names = (True, shs, evs) \<Longrightarrow> si \<in> set shs \<Longrightarrow>
     \<exists>n \<in> set names. \<not> suffix backupExt n \<and>
        (\<exists>l. Shards c t (path_join dp [n]) = Inr l \<and> si \<in> set l)"
  by (induction names arbitrary: shs evs) (auto split: prod.splits sum.splits if_splits)

lemma plan_cases [case_names noargs toolarge noaccess noshards nothing planned]:
  fixes e c fl t
  defines "dp \<equiv> parse_path (hd (args fl))"
  obtains
    "args fl = []" "plan e c fl t = Inl (1, [Out NoDataDirectory])"
  | "args fl \<noteq> []" "maxTSMSz < tsmSz fl" "plan e c fl t = Inl (1, [Out MaximumSize])"
  | err where "args fl \<noteq> []" "tsmSz fl \<le> maxTSMSz" "ReadDir e t dp = Inl err"
      "plan e c fl t = Inl (1, [ListRoot dp, Out (AccessFailed dp err)])"
  | names found devs where "args fl \<noteq> []" "tsmSz fl \<le> maxTSMSz" "ReadDir e t dp = Inr names"
      "discover c t dp names = (False, found, devs)"
      "plan e c fl t = Inl (1, [ListRoot dp, Out Blank] @ devs)"
  | names found devs where "args fl \<noteq> []" "tsmSz fl \<le> maxTSMSz" "ReadDir e t dp = Inr names"
      "discover c t dp names = (True, found, devs)"
      "FilterDatabases (FilterFormat (sort_ShardInfos found) TSM1) (requested (ds fl)) = []"
      "plan e c fl t = Inl (0, [ListRoot dp, Out Blank] @ devs @ [Out NothingToDo])"
  | names found devs where "args fl \<noteq> []" "tsmSz fl \<le> maxTSMSz" "ReadDir e t dp = Inr names"
      "discover c t dp names = (True, found, devs)"
      "FilterDatabases (FilterFormat (sort_ShardInfos found) TSM1) (requested (ds fl)) \<noteq> []"
      "plan e c fl t = Inr (dp, FilterDatabases (FilterFormat (sort_ShardInfos found) TSM1) (requested (ds fl)),
         [ListRoot dp, Out Blank] @ devs)"
proof (cases "args fl = []")
  case True
  then show ?thesis using that(1) by (simp add: plan_def)
next
  case a: False
  show ?thesis
  proof (cases "maxTSMSz < tsmSz fl")
    case True
    then show ?thesis using a that(2) by (simp add: plan_def Let_def)
  next
    case b: False
    show ?thesis
    proof (cases "ReadDir e t dp")
      case (Inl err)
      then show ?thesis using a b that(3) [of err] by (simp add: plan_def Let_def dp_def)
    next
      case (Inr names)
      obtain ok found devs where d: "discover c t dp names = (ok, found, devs)"
        by (cases "discover c t dp names") auto
      show ?thesis
      proof (cases ok)
        case False
        then show ?thesis using a b Inr d that(4) [of names found devs]
          by (simp add: plan_def Let_def dp_def)
      next
        case True
        show ?thesis
        proof (cases "FilterDatabases (FilterFormat (sort_ShardInfos found) TSM1) (requested (ds fl)) = []")
          case True
          then show ?thesis using a b Inr d \<open>ok\<close> that(5) [of names found devs]
            by (simp add: plan_def Let_def dp_def)
        next
          case False
          then show ?thesis using a b Inr d \<open>ok\<close> that(6) [of names found devs]
            by (simp add: plan_def Let_def dp_def)
        qed
      qed
    qed
  qed
qed

lemma main_tsm_run [consumes 1, case_names stopped declined converted]:
  assumes "main_tsm e c fl yn t = (code, t', evs)"
  obtains
    pevs where "plan e c fl t = Inl (code, pevs)" "t' = t" "evs = pevs"
  | dp shards pevs m where "plan e c fl t = Inr (dp, shards, pevs)" "code = 1" "t' = t"
      "evs = pevs @ [Out Blank, Out (Plan shards), Out Proceed, Out m]"
      "(\<exists>err. m = ResponseFailed err) \<or> m = Aborted"
  | dp shards pevs cevs where "plan e c fl t = Inr (dp, shards, pevs)"
      "backup_and_convert e c dp (tsmSz fl) shards t = (code, t', cevs)"
      "evs = pevs @ [Out Blank, Out (Plan shards), Out Proceed, Out Starting] @ cevs"
  using assms
  by (auto simp: main_tsm_def Let_def split: sum.splits prod.splits if_splits)

lemma plan_events:
  "plan e c fl t = Inl (n, evs) \<or> plan e c fl t = Inr (dp, shards, evs) \<Longrightarrow> ev \<in> set evs \<Longrightarrow> is_planning ev"
  by (cases e c fl t rule: plan_cases) (auto dest: discover_planning)

lemma is_planning_not: "is_planning ev \<Longrightarrow> \<not> is_backup ev \<and> \<not> is_conversion ev \<and> ev \<noteq> Out Panicked"
  by (cases ev) auto

lemma backup_not_conversion: "is_backup ev \<Longrightarrow> \<not> is_conversion ev"
  by (induction ev rule: is_backup.induct) auto

lemma quiet_run:
  assumes "\<forall>ev \<in> set evs. \<not> is_backup ev \<and> \<not> is_conversion ev \<and> ev \<noteq> Out Panicked"
  shows "(\<forall>i j. i < length evs \<and> j < length evs \<and> is_backup (evs ! i) \<and> is_conversion (evs ! j)
            \<longrightarrow> i < j) \<and>
         ((\<exists>ev \<in> set evs. is_conversion ev) \<longrightarrow>
            (\<forall>shards. Out (Plan shards) \<in> set evs \<longrightarrow>
               (\<forall>si \<in> set shards. Out (BackedUp (Database si)) \<in> set evs)) \<and>
            (\<forall>db err. Out (BackupFailed db err) \<notin> set evs) \<and> Out Panicked \<notin> set evs) \<and>
         ((\<exists>db err. Out (BackupFailed db err) \<in> set evs) \<longrightarrow>
            code = 1 \<and> (\<forall>ev \<in> set evs. \<not> is_conversion ev)) \<and>
         (Out Panicked \<in> set evs \<longrightarrow> code = 2 \<and> (\<forall>ev \<in> set evs. \<not> is_conversion ev))"
proof -
  have 1: "\<forall>i j. i < length evs \<and> j < length evs \<and> is_backup (evs ! i) \<and> is_conversion (evs ! j)
            \<longrightarrow> i < j"
    using assms nth_mem by blast
  have 2: "\<not> (\<exists>ev \<in> set evs. is_conversion ev)" using assms by blast
  have 3: "\<not> (\<exists>db err. Out (BackupFailed db err) \<in> set evs)"
  proof
    assume "\<exists>db err. Out (BackupFailed db err) \<in> set evs"
    then obtain db err where "Out (BackupFailed db err) \<in> set evs" by blast
    with assms have "\<not> is_backup (Out (BackupFailed db err))" by blast
    then show False by simp
  qed
  have 4: "Out Panicked \<notin> set evs" using assms by blast
  from 1 2 3 4 show ?thesis by blast
qed

lemma demo_run:
  "main_tsm demo_os demo_collab demo_flags demo_yes demo_fs =
    (0, [([''data''], Dir 493), ([''data'', ''db''], Dir 493),
      ([''data'', ''db'', ''rp''], Dir 448),
      ([''data'', ''mydb.bak''], Dir 493), ([''data'', ''db.bak''], Dir 493),
      ([''data'', ''db.bak'', ''rp''], Dir 448),
      ([''data'', ''db.bak'', ''rp'', ''1''], File 420 [1, 2, 3]),
      ([''data'', ''db'', ''rp'', ''1''], File 420 [7])],
  [ListRoot [''data''], Out Blank, ListShards [''data'', ''db''],
   Out (Skipping ''mydb.bak''), Out Blank, Out (Plan [demo_shard]),
   Out Proceed, Out Starting, Backup [''data'', ''db''],
   Out (BackedUp ''db''),
   Convert demo_shard,
   ReaderOpen [''data'', ''db'', ''rp'', ''1''],
   Process [''data'', ''db'', ''rp'', ''1.tsm''] 1073741824,
   ReaderClose [''data'', ''db'', ''rp'', ''1''],
   Remove [''data'', ''db'', ''rp'', ''1''],
   Move [''data'', ''db'', ''rp'', ''1.tsm'']
    [''data'', ''db'', ''rp'', ''1''],
   Out (Converted [''data'', ''db'', ''rp'', ''1''])])"
  by code_simp

subsection \<open>The size bound\<close>

text \<open>
  C10. A run that reaches a conversion has \<open>tsmSz\<close> at most 1 GiB
  (\<open>1 * 1024 * 1024 * 1024\<close>): with a larger \<open>-sz\<close> the process ends with status 1 before
  it lists the data directory, having printed one message and changed nothing. Under
  the bound, \<open>uint32(tsmSz)\<close>, the size every converter is made with, is \<open>tsmSz\<close> itself.
\<close>

theorem tsmSz_at_most_1GiB:
  assumes "main_tsm e c fl yn t = (code, t', evs)"
  shows "(maxTSMSz < tsmSz fl \<longrightarrow>
            code = 1 \<and> t' = t \<and>
            evs = (if args fl = [] then [Out NoDataDirectory] else [Out MaximumSize])) \<and>
         ((\<exists>si. Convert si \<in> set evs) \<longrightarrow>
            unat (tsmSz fl) \<le> 1 * 1024 * 1024 * 1024 \<and>
            (\<forall>dst s. Process dst s \<in> set evs \<longrightarrow> unat s = unat (tsmSz fl)))"
proof (intro conjI impI)
  assume big: "maxTSMSz < tsmSz fl"
  have "plan e c fl t = Inl (1, if args fl = [] then [Out NoDataDirectory] else [Out MaximumSize])"
    using big by (cases e c fl t rule: plan_cases) auto
  with assms show "code = 1" and "t' = t"
    and "evs = (if args fl = [] then [Out NoDataDirectory] else [Out MaximumSize])"
    by (auto simp: main_tsm_def)
next
  assume conv: "\<exists>si. Convert si \<in> set evs"
  from assms have "tsmSz fl \<le> maxTSMSz"
  proof (cases rule: main_tsm_run)
    case (stopped pevs)
    from conv stopped(3) obtain si where "Convert si \<in> set pevs" by auto
    with stopped(1) show ?thesis
      by (cases e c fl t rule: plan_cases) (auto dest: discover_planning)
  next
    case (declined dp shards pevs m)
    then show ?thesis by (cases e c fl t rule: plan_cases) auto
  next
    case (converted dp shards pevs cevs)
    then show ?thesis by (cases e c fl t rule: plan_cases) auto
  qed
  then show "unat (tsmSz fl) \<le> 1 * 1024 * 1024 * 1024"
    by (simp add: maxTSMSz_def word_le_nat_alt)
  show "\<forall>dst s. Process dst s \<in> set evs \<longrightarrow> unat s = unat (tsmSz fl)"
  proof (intro allI impI)
    fix dst s
    assume pr: "Process dst s \<in> set evs"
    from assms show "unat s = unat (tsmSz fl)"
    proof (cases rule: main_tsm_run)
      case (stopped pevs)
      with pr show ?thesis
        by (cases e c fl t rule: plan_cases) (auto dest: discover_planning)
    next
      case (declined dp shards pevs m)
      with pr show ?thesis
        by (cases e c fl t rule: plan_cases) (auto dest: discover_planning)
    next
      case (converted dp shards pevs cevs)
      with pr have "Process dst s \<in> set cevs"
        by (cases e c fl t rule: plan_cases) (auto dest: discover_planning)
      from backup_and_convert_Process [OF converted(2) this] ucast_tsmSz [OF \<open>tsmSz fl \<le> maxTSMSz\<close>]
      show ?thesis by simp
    qed
  qed
qed

theorem tsmSz_at_most_1GiB_witness:
  "Convert demo_shard \<in> set (snd (snd (main_tsm demo_os demo_collab demo_flags demo_yes demo_fs))) \<and>
   unat (tsmSz demo_flags) \<le> 1 * 1024 * 1024 * 1024 \<and>
   Process [''data'', ''db'', ''rp'', ''1.tsm''] 1073741824
     \<in> set (snd (snd (main_tsm demo_os demo_collab demo_flags demo_yes demo_fs))) \<and>
   unat (1073741824 :: 32 word) = unat (tsmSz demo_flags)"
  using tsmSz_at_most_1GiB [OF demo_run] by (auto simp: demo_run)

subsection \<open>Backups come first\<close>

text \<open>
  C2. In every run, whatever belongs to a backup is done before whatever belongs to a
  conversion. If anything of a conversion is done, the backup of the database of every
  shard of the plan has completed and no backup has failed. If one backup fails, by an
  error or by a panic, the process ends with a status that is not zero (1, or 2 for the
  panic) and nothing of any conversion is done.
\<close>

theorem backups_before_conversions:
  assumes "main_tsm e c fl yn t = (code, t', evs)"
  shows "(\<forall>i j. i < length evs \<and> j < length evs \<and> is_backup (evs ! i) \<and> is_conversion (evs ! j)
            \<longrightarrow> i < j) \<and>
         ((\<exists>ev \<in> set evs. is_conversion ev) \<longrightarrow>
            (\<forall>shards. Out (Plan shards) \<in> set evs \<longrightarrow>
               (\<forall>si \<in> set shards. Out (BackedUp (Database si)) \<in> set evs)) \<and>
            (\<forall>db err. Out (BackupFailed db err) \<notin> set evs) \<and> Out Panicked \<notin> set evs) \<and>
         ((\<exists>db err. Out (BackupFailed db err) \<in> set evs) \<longrightarrow>
            code = 1 \<and> (\<forall>ev \<in> set evs. \<not> is_conversion ev)) \<and>
         (Out Panicked \<in> set evs \<longrightarrow> code = 2 \<and> (\<forall>ev \<in> set evs. \<not> is_conversion ev))"
  using assms
proof (cases rule: main_tsm_run)
  case (stopped pevs)
  then have "\<forall>ev \<in> set evs. is_planning ev" using plan_events by blast
  then have "\<forall>ev \<in> set evs. \<not> is_backup ev \<and> \<not> is_conversion ev \<and> ev \<noteq> Out Panicked"
    using is_planning_not by blast
  then show ?thesis by (rule quiet_run)
next
  case (declined dp shards pevs m)
  then have "\<forall>ev \<in> set pevs. is_planning ev" using plan_events by blast
  then have "\<forall>ev \<in> set pevs. \<not> is_backup ev \<and> \<not> is_conversion ev \<and> ev \<noteq> Out Panicked"
    using is_planning_not by blast
  with declined(4,5) have "\<forall>ev \<in> set evs. \<not> is_backup ev \<and> \<not> is_conversion ev \<and> ev \<noteq> Out Panicked"
    by auto
  then show ?thesis by (rule quiet_run)
next
  case (converted dp shards pevs cevs)
  then have "\<forall>ev \<in> set pevs. is_planning ev" using plan_events by blast
  then have pl: "\<forall>ev \<in> set pevs. \<not> is_backup ev \<and> \<not> is_conversion ev \<and> ev \<noteq> Out Panicked"
    using is_planning_not by blast
  have noplan: "\<forall>ev \<in> set pevs. \<forall>s. ev \<noteq> Out (Plan s)"
    using converted(1) by (cases e c fl t rule: plan_cases) (auto dest: discover_events)
  obtain bs cs where split: "cevs = bs @ cs"
    and bs: "\<forall>ev \<in> set bs. is_backup ev \<or> ev = Out Panicked"
    and cs: "\<forall>ev \<in> set cs. is_conversion ev"
    and backed: "cs \<noteq> [] \<longrightarrow> (\<forall>si \<in> set shards. Out (BackedUp (Database si)) \<in> set bs) \<and>
        (\<forall>ev \<in> set bs. (\<exists>p. ev = Backup p) \<or> (\<exists>db. ev = Out (BackedUp db)))"
    and failed: "(\<exists>db err. Out (BackupFailed db err) \<in> set bs) \<longrightarrow> code = 1 \<and> cs = []"
    and panicked: "Out Panicked \<in> set bs \<longrightarrow> code = 2 \<and> cs = []"
    by (rule backup_and_convert_split [OF converted(2)]) blast
  let ?pre = "pevs @ [Out Blank, Out (Plan shards), Out Proceed, Out Starting] @ bs"
  have evs: "evs = ?pre @ cs" using converted(3) split by simp
  have "\<forall>ev \<in> set bs. \<not> is_conversion ev" using bs backup_not_conversion by auto
  with pl have pre: "\<forall>ev \<in> set ?pre. \<not> is_conversion ev" by auto
  have post: "\<forall>ev \<in> set cs. \<not> is_backup ev" using cs backup_not_conversion by blast
  have order: "\<forall>i j. i < length evs \<and> j < length evs \<and> is_backup (evs ! i) \<and> is_conversion (evs ! j)
            \<longrightarrow> i < j"
    using ordered_append [OF evs pre post] by blast
  have conv_iff: "(\<exists>ev \<in> set evs. is_conversion ev) \<longleftrightarrow> cs \<noteq> []"
    using evs pre cs by (cases cs) auto
  have plans: "\<forall>s. Out (Plan s) \<in> set evs \<longrightarrow> s = shards"
    using evs noplan bs cs by auto
  have fail_in: "\<forall>db err. Out (BackupFailed db err) \<in> set evs \<longrightarrow> Out (BackupFailed db err) \<in> set bs"
    using evs pl cs by auto
  have panic_in: "Out Panicked \<in> set evs \<longrightarrow> Out Panicked \<in> set bs"
    using evs pl cs by auto
  have a: "(\<exists>ev \<in> set evs. is_conversion ev) \<longrightarrow>
            (\<forall>shards. Out (Plan shards) \<in> set evs \<longrightarrow>
               (\<forall>si \<in> set shards. Out (BackedUp (Database si)) \<in> set evs)) \<and>
            (\<forall>db err. Out (BackupFailed db err) \<notin> set evs) \<and> Out Panicked \<notin> set evs"
  proof
    assume "\<exists>ev \<in> set evs. is_conversion ev"
    then have ne: "cs \<noteq> []" using conv_iff by simp
    with backed have d1: "\<forall>si \<in> set shards. Out (BackedUp (Database si)) \<in> set bs"
      and d2: "\<forall>ev \<in> set bs. (\<exists>p. ev = Backup p) \<or> (\<exists>db. ev = Out (BackedUp db))" by auto
    have sub: "set bs \<subseteq> set evs" by (auto simp: evs)
    from d1 plans sub have "\<forall>s. Out (Plan s) \<in> set evs \<longrightarrow>
               (\<forall>si \<in> set s. Out (BackedUp (Database si)) \<in> set evs)" by blast
    moreover have "\<forall>db err. Out (BackupFailed db err) \<notin> set bs" using d2 by fastforce
    with fail_in have "\<forall>db err. Out (BackupFailed db err) \<notin> set evs" by blast
    moreover have "Out Panicked \<notin> set bs" using d2 by fastforce
    with panic_in have "Out Panicked \<notin> set evs" by blast
    ultimately show "(\<forall>shards. Out (Plan shards) \<in> set evs \<longrightarrow>
               (\<forall>si \<in> set shards. Out (BackedUp (Database si)) \<in> set evs)) \<and>
            (\<forall>db err. Out (BackupFailed db err) \<notin> set evs) \<and> Out Panicked \<notin> set evs" by blast
  qed
  have b: "(\<exists>db err. Out (BackupFailed db err) \<in> set evs) \<longrightarrow>
            code = 1 \<and> (\<forall>ev \<in> set evs. \<not> is_conversion ev)"
    using fail_in failed conv_iff by blast
  have c: "Out Panicked \<in> set evs \<longrightarrow> code = 2 \<and> (\<forall>ev \<in> set evs. \<not> is_conversion ev)"
    using panic_in panicked conv_iff by blast
  show ?thesis by (rule conjI [OF order conjI [OF a conjI [OF b c]]])
qed

subsection \<open>An empty plan\<close>

text \<open>
  C7. When the data directory can be listed, the shards of every entry can be listed, and
  the filters leave no shard, the process ends with status 0 after the report
  \<open>Nothing to do.\<close>; it has backed up nothing, converted nothing and left the file
  system as it was.
\<close>

theorem empty_plan_is_success:
  assumes "args fl \<noteq> []" and "tsmSz fl \<le> maxTSMSz"
    and "ReadDir e t (parse_path (hd (args fl))) = Inr names"
    and "discover c t (parse_path (hd (args fl))) names = (True, found, devs)"
    and "FilterDatabases (FilterFormat (sort_ShardInfos found) TSM1) (requested (ds fl)) = []"
  shows "main_tsm e c fl yn t =
           (0, t, [ListRoot (parse_path (hd (args fl))), Out Blank] @ devs @ [Out NothingToDo]) \<and>
         (\<forall>ev \<in> set devs. \<not> is_backup ev \<and> \<not> is_conversion ev) \<and>
         render NothingToDo = ''Nothing to do.''"
  using assms discover_planning [OF assms(4)] is_planning_not
  by (auto simp: main_tsm_def plan_def Let_def)

subsection \<open>The parallel option\<close>

text \<open>
  C8. The run does not depend on the \<open>parallel\<close> flag: \<open>main\<close> never reads it. With the
  flag set and with it clear the shards are converted one after the other, in the order
  of the plan, with the same result.
\<close>

theorem parallel_flag_ignored:
  "main_tsm e c (fl\<lparr>parallel := b\<rparr>) yn t = main_tsm e c fl yn t"
proof -
  have "plan e c (fl\<lparr>parallel := b\<rparr>) t = plan e c fl t"
    by (simp add: plan_def Let_def)
  then show ?thesis
    by (simp add: main_tsm_def cong: sum.case_cong prod.case_cong if_cong)
qed

end
